theory Spec2Isabelle
  imports Complex_Main
begin

section \<open>Python values used by \<open>dukhota/message.py\<close>\<close>

text \<open>
  The module defines one pydantic model, \<open>Message\<close>, with a constructor that derives three
  fields, a comparability test and a rich-comparison method. The embedding keeps the
  source's names. Exceptions are values of type \<open>error\<close>; a function that can raise
  returns \<open>error + 'a\<close> with \<open>Inl\<close> for the exception.

  A Python \<open>str\<close> is a \<open>string\<close>: one \<open>char\<close> per code point, so only code points
  below 256 are represented and \<open>length\<close> is Python's \<open>len\<close> on them. A Python \<open>int\<close>
  is an \<open>int\<close>. An \<open>Optional[T]\<close> field is a \<open>T option\<close>, \<open>None\<close> being Python's
  \<open>None\<close>.
\<close>

datatype error = ValueError | TypeError | ZeroDivisionError

type_synonym pystr = string

text \<open>
  Truthiness, as \<open>and\<close>, \<open>or\<close>, \<open>not\<close> and \<open>if\<close> read their operands: \<open>None\<close>, \<open>0\<close>,
  the empty string, the empty list and \<open>False\<close> are false, every other value is true.
\<close>

definition truthy_int :: "int option \<Rightarrow> bool" where
  "truthy_int x = (case x of None \<Rightarrow> False | Some i \<Rightarrow> i \<noteq> 0)"

definition truthy_seq :: "'a list option \<Rightarrow> bool" where
  "truthy_seq x = (case x of None \<Rightarrow> False | Some xs \<Rightarrow> xs \<noteq> [])"

definition truthy_bool :: "bool option \<Rightarrow> bool" where
  "truthy_bool x = (case x of None \<Rightarrow> False | Some b \<Rightarrow> b)"

text \<open>\<open>str(x)\<close> for an \<open>Optional[int]\<close>: the decimal numeral, or the text \<open>None\<close>.\<close>

function str_nat :: "nat \<Rightarrow> pystr" where
  "str_nat n = (if n < 10 then [''0123456789'' ! n]
                else str_nat (n div 10) @ [''0123456789'' ! (n mod 10)])"
  by pat_completeness auto
termination
  by (relation "measure id") auto

declare str_nat.simps [simp del]

definition str_int :: "int \<Rightarrow> pystr" where
  "str_int i = (if i < 0 then CHR ''-'' # str_nat (nat (- i)) else str_nat (nat i))"

definition str :: "int option \<Rightarrow> pystr" where
  "str x = (case x of None \<Rightarrow> ''None'' | Some i \<Rightarrow> str_int i)"

text \<open>
  \<open>s.replace(old, new)\<close>: every non-overlapping occurrence of \<open>old\<close>, from the left. With
  an empty \<open>old\<close> Python puts \<open>new\<close> before every character and at the end.
\<close>

function replace :: "pystr \<Rightarrow> pystr \<Rightarrow> pystr \<Rightarrow> pystr" where
  "replace old new s =
     (if old = [] then new @ concat (map (\<lambda>c. c # new) s)
      else if s = [] then []
      else if take (length old) s = old then new @ replace old new (drop (length old) s)
      else hd s # replace old new (tl s))"
  by pat_completeness auto
termination
  by (relation "measure (\<lambda>(old, new, s). length s)") auto

declare replace.simps [simp del]

text \<open>
  \<open>int(s)\<close> in base 10 on the strings that reach it here (a decimal numeral with its
  sign, with \<open>-100\<close> removed, or the text \<open>None\<close>): an optional sign and at least one
  digit, anything else raises \<open>ValueError\<close>. Python also accepts surrounding white space
  and underscores between digits; \<open>str\<close> of an integer has neither.
\<close>

definition is_digit :: "char \<Rightarrow> bool" where
  "is_digit c = (c \<in> set ''0123456789'')"

definition digit_val :: "char \<Rightarrow> nat" where
  "digit_val c = of_char c - 48"

definition dec_val :: "pystr \<Rightarrow> nat" where
  "dec_val ds = foldl (\<lambda>acc c. 10 * acc + digit_val c) 0 ds"

definition py_int :: "pystr \<Rightarrow> error + int" where
  "py_int s =
     (let neg = (s \<noteq> [] \<and> hd s = CHR ''-'');
          ds = (if s \<noteq> [] \<and> (hd s = CHR ''-'' \<or> hd s = CHR ''+'') then tl s else s)
      in if ds \<noteq> [] \<and> list_all is_digit ds
         then Inr (if neg then - int (dec_val ds) else int (dec_val ds))
         else Inl ValueError)"

text \<open>
  \<open>sep.join(xs)\<close>. Its argument is an \<open>Optional[List[str]]\<close> here, and \<open>join\<close> of \<open>None\<close>
  raises \<open>TypeError\<close> (\<open>can only join an iterable\<close>).
\<close>

fun join :: "pystr \<Rightarrow> pystr list \<Rightarrow> pystr" where
  "join sep [] = []"
| "join sep [x] = x"
| "join sep (x # y # ys) = x @ sep @ join sep (y # ys)"

definition join_opt :: "pystr \<Rightarrow> pystr list option \<Rightarrow> error + pystr" where
  "join_opt sep xs = (case xs of None \<Rightarrow> Inl TypeError | Some ys \<Rightarrow> Inr (join sep ys))"

section \<open>The standard library's \<open>difflib.SequenceMatcher(None, a, b).ratio()\<close>\<close>

text \<open>
  The comparison calls \<open>ratio()\<close> of a \<open>SequenceMatcher\<close> built with \<open>isjunk=None\<close> and the
  default \<open>autojunk=True\<close>. The model follows \<open>difflib.py\<close>.

  \<open>__chain_b\<close>: \<open>b2j\<close> maps an element to the ascending list of its positions in \<open>b\<close>.
  No element is junk; when \<open>b\<close> has at least 200 elements, an element with more than
  \<open>len(b) // 100 + 1\<close> positions is popular and loses its entry.
\<close>

fun indices :: "'a \<Rightarrow> 'a list \<Rightarrow> nat \<Rightarrow> nat list" where
  "indices elt [] n = []"
| "indices elt (x # xs) n =
     (if x = elt then n # indices elt xs (n + 1) else indices elt xs (n + 1))"

definition purge_popular :: "nat \<Rightarrow> nat list \<Rightarrow> nat list" where
  "purge_popular n idxs = (if n \<ge> 200 \<and> length idxs > n div 100 + 1 then [] else idxs)"

definition b2j :: "'a list \<Rightarrow> 'a \<Rightarrow> nat list" where
  "b2j b elt = purge_popular (length b) (indices elt b 0)"

text \<open>
  \<open>find_longest_match\<close>. The dictionary \<open>j2len\<close> is a function that is \<open>0\<close> on the keys it
  does not hold (it only stores positive lengths), so \<open>j2len.get(j-1, 0)\<close> is
  \<open>j2len_get\<close>. The loop over \<open>j\<close> skips positions below \<open>blo\<close> and stops at the first one
  from \<open>bhi\<close> on. Its state is the pair of \<open>newj2len\<close> and the best match so far
  \<open>(besti, bestj, bestsize)\<close>. The source assigns \<open>i-k+1\<close> and \<open>j-k+1\<close>; \<open>k\<close> never exceeds
  \<open>i - alo + 1\<close> (lemma \<open>inner_loop_inv\<close>), so the natural-number subtraction is exact.
\<close>

definition j2len_get :: "(nat \<Rightarrow> nat) \<Rightarrow> nat \<Rightarrow> nat" where
  "j2len_get j2len j = (if j = 0 then 0 else j2len (j - 1))"

definition new_best :: "nat \<Rightarrow> nat \<Rightarrow> nat \<Rightarrow> nat \<times> nat \<times> nat \<Rightarrow> nat \<times> nat \<times> nat" where
  "new_best i j k best =
     (if k > snd (snd best) then (i + 1 - k, j + 1 - k, k) else best)"

fun inner_loop ::
  "nat \<Rightarrow> nat \<Rightarrow> nat \<Rightarrow> (nat \<Rightarrow> nat) \<Rightarrow> nat list
     \<Rightarrow> (nat \<Rightarrow> nat) \<times> nat \<times> nat \<times> nat \<Rightarrow> (nat \<Rightarrow> nat) \<times> nat \<times> nat \<times> nat" where
  "inner_loop i blo bhi j2len [] st = st"
| "inner_loop i blo bhi j2len (j # js) st =
     (if j < blo then inner_loop i blo bhi j2len js st
      else if j \<ge> bhi then st
      else inner_loop i blo bhi j2len js
             ((fst st)(j := j2len_get j2len j + 1),
              new_best i j (j2len_get j2len j + 1) (snd st)))"

text \<open>The loop \<open>for i in range(alo, ahi)\<close>, with \<open>j2len = newj2len\<close> after each row.\<close>

function outer_loop ::
  "'a list \<Rightarrow> 'a list \<Rightarrow> nat \<Rightarrow> nat \<Rightarrow> nat \<Rightarrow> nat
     \<Rightarrow> (nat \<Rightarrow> nat) \<times> nat \<times> nat \<times> nat \<Rightarrow> (nat \<Rightarrow> nat) \<times> nat \<times> nat \<times> nat" where
  "outer_loop a b i ahi blo bhi st =
     (if i < ahi
      then outer_loop a b (i + 1) ahi blo bhi
             (inner_loop i blo bhi (fst st) (b2j b (a ! i)) ((\<lambda>_. 0), snd st))
      else st)"
  by pat_completeness auto
termination
  by (relation "measure (\<lambda>(a, b, i, ahi, blo, bhi, st). ahi - i)") auto

declare outer_loop.simps [simp del]

text \<open>
  The two loops that extend the match over equal elements on both sides. The two loops
  after them extend over junk only, and there is no junk.
\<close>

function extend_left ::
  "'a list \<Rightarrow> 'a list \<Rightarrow> nat \<Rightarrow> nat \<Rightarrow> nat \<times> nat \<times> nat \<Rightarrow> nat \<times> nat \<times> nat" where
  "extend_left a b alo blo (besti, bestj, bestsize) =
     (if besti > alo \<and> bestj > blo \<and> a ! (besti - 1) = b ! (bestj - 1)
      then extend_left a b alo blo (besti - 1, bestj - 1, bestsize + 1)
      else (besti, bestj, bestsize))"
  by pat_completeness auto
termination
  by (relation "measure (\<lambda>(a, b, alo, blo, besti, bestj, bestsize). besti)") auto

declare extend_left.simps [simp del]

function extend_right ::
  "'a list \<Rightarrow> 'a list \<Rightarrow> nat \<Rightarrow> nat \<Rightarrow> nat \<times> nat \<times> nat \<Rightarrow> nat \<times> nat \<times> nat" where
  "extend_right a b ahi bhi (besti, bestj, bestsize) =
     (if besti + bestsize < ahi \<and> bestj + bestsize < bhi
           \<and> a ! (besti + bestsize) = b ! (bestj + bestsize)
      then extend_right a b ahi bhi (besti, bestj, bestsize + 1)
      else (besti, bestj, bestsize))"
  by pat_completeness auto
termination
  by (relation "measure (\<lambda>(a, b, ahi, bhi, besti, bestj, bestsize). ahi - (besti + bestsize))") auto

declare extend_right.simps [simp del]

definition find_longest_match ::
  "'a list \<Rightarrow> 'a list \<Rightarrow> nat \<Rightarrow> nat \<Rightarrow> nat \<Rightarrow> nat \<Rightarrow> nat \<times> nat \<times> nat" where
  "find_longest_match a b alo ahi blo bhi =
     extend_right a b ahi bhi
       (extend_left a b alo blo
          (snd (outer_loop a b alo ahi blo bhi ((\<lambda>_. 0), alo, blo, 0))))"


text \<open>
  The match found lies inside \<open>a[alo:ahi]\<close>: this is what makes the recursion of
  \<open>get_matching_blocks\<close> terminate.
\<close>

definition best_inv :: "nat \<Rightarrow> nat \<Rightarrow> nat \<times> nat \<times> nat \<Rightarrow> bool" where
  "best_inv alo i best =
     (alo \<le> fst best \<and>
      (snd (snd best) = 0 \<and> fst best = alo \<or> fst best + snd (snd best) \<le> i))"

lemma inner_loop_inv:
  assumes "alo \<le> i" and "\<And>j. j2len j \<le> i - alo"
    and "\<And>j. fst st j \<le> i + 1 - alo" and "best_inv alo (i + 1) (snd st)"
  shows "(\<forall>j. fst (inner_loop i blo bhi j2len js st) j \<le> i + 1 - alo)
           \<and> best_inv alo (i + 1) (snd (inner_loop i blo bhi j2len js st))"
  using assms(3,4)
proof (induction js arbitrary: st)
  case Nil
  then show ?case by simp
next
  case (Cons j js)
  let ?k = "j2len_get j2len j + 1"
  have "j2len_get j2len j \<le> i - alo"
    using assms(2) [of "j - 1"] by (simp add: j2len_get_def)
  with assms(1) have k: "?k \<le> i + 1 - alo"
    by simp
  have 1: "\<And>x. ((fst st)(j := ?k)) x \<le> i + 1 - alo"
    using Cons.prems(1) k by simp
  have 2: "best_inv alo (i + 1) (new_best i j ?k (snd st))"
    using Cons.prems(2) k assms(1) by (auto simp: best_inv_def new_best_def)
  show ?case
    using Cons.IH [of st] Cons.IH [of "((fst st)(j := ?k), new_best i j ?k (snd st))"]
      Cons.prems 1 2
    by simp
qed

lemma outer_loop_inv:
  assumes "alo \<le> i" and "\<And>j. fst st j \<le> i - alo" and "best_inv alo i (snd st)"
    and "i \<le> ahi \<or> snd (snd (snd st)) = 0"
  shows "best_inv alo (max i ahi) (snd (outer_loop a b i ahi blo bhi st))"
  using assms
proof (induction a b i ahi blo bhi st rule: outer_loop.induct)
  case (1 a b i ahi blo bhi st)
  show ?case
  proof (cases "i < ahi")
    case True
    let ?st = "inner_loop i blo bhi (fst st) (b2j b (a ! i)) ((\<lambda>_. 0), snd st)"
    have b: "best_inv alo (i + 1) (snd st)"
      using "1.prems"(3) by (auto simp: best_inv_def)
    have inv: "(\<forall>j. fst ?st j \<le> i + 1 - alo) \<and> best_inv alo (i + 1) (snd ?st)"
      by (rule inner_loop_inv) (use "1.prems" b in simp_all)
    have "best_inv alo (max (i + 1) ahi) (snd (outer_loop a b (i + 1) ahi blo bhi ?st))"
      by (rule "1.IH") (use True "1.prems"(1) inv in simp_all)
    moreover have "max (i + 1) ahi = max i ahi"
      using True by simp
    ultimately show ?thesis
      using True by (subst outer_loop.simps) simp
  next
    case False
    then show ?thesis
      using "1.prems" by (subst outer_loop.simps) (auto simp: best_inv_def max_def)
  qed
qed

lemma extend_left_inv:
  "best_inv alo m best \<Longrightarrow> best_inv alo m (extend_left a b alo blo best)"
proof (induction a b alo blo best rule: extend_left.induct)
  case (1 a b alo blo besti bestj bestsize)
  show ?case
  proof (cases "besti > alo \<and> bestj > blo \<and> a ! (besti - 1) = b ! (bestj - 1)")
    case True
    have "best_inv alo m (besti - 1, bestj - 1, bestsize + 1)"
      using "1.prems" True by (auto simp: best_inv_def)
    then show ?thesis
      using "1.IH" True by (subst extend_left.simps) simp
  next
    case False
    then show ?thesis
      using "1.prems" by (subst extend_left.simps) auto
  qed
qed

lemma extend_right_inv:
  "best_inv alo m best \<Longrightarrow> ahi \<le> m \<Longrightarrow> best_inv alo m (extend_right a b ahi bhi best)"
proof (induction a b ahi bhi best rule: extend_right.induct)
  case (1 a b ahi bhi besti bestj bestsize)
  show ?case
  proof (cases "besti + bestsize < ahi \<and> bestj + bestsize < bhi
           \<and> a ! (besti + bestsize) = b ! (bestj + bestsize)")
    case True
    have "best_inv alo m (besti, bestj, bestsize + 1)"
      using "1.prems" True by (auto simp: best_inv_def)
    then show ?thesis
      using "1.IH" "1.prems"(2) True by (subst extend_right.simps) simp
  next
    case False
    then show ?thesis
      using "1.prems" by (subst extend_right.simps) auto
  qed
qed

lemma find_longest_match_bounds:
  assumes "find_longest_match a b alo ahi blo bhi = (i, j, k)" and "k \<noteq> 0"
  shows "alo \<le> i \<and> i + k \<le> ahi"
proof -
  let ?st0 = "((\<lambda>_. 0) :: nat \<Rightarrow> nat, alo, blo, 0 :: nat)"
  have "best_inv alo (max alo ahi) (snd (outer_loop a b alo ahi blo bhi ?st0))"
    by (rule outer_loop_inv) (simp_all add: best_inv_def)
  then have "best_inv alo (max alo ahi) (find_longest_match a b alo ahi blo bhi)"
    unfolding find_longest_match_def
    by (intro extend_right_inv extend_left_inv) simp_all
  with assms show ?thesis
    by (auto simp: best_inv_def max_def split: if_splits)
qed

text \<open>
  \<open>get_matching_blocks\<close> takes a range from its queue, finds the longest match in it and,
  when there is one, queues the ranges to its left and to its right. \<open>ratio\<close> only adds up
  the sizes of the blocks (sorting them and merging adjacent ones keeps the sum), so the
  model adds them up along the same recursion.
\<close>

function matching_size :: "'a list \<Rightarrow> 'a list \<Rightarrow> nat \<Rightarrow> nat \<Rightarrow> nat \<Rightarrow> nat \<Rightarrow> nat" where
  "matching_size a b alo ahi blo bhi =
     (case find_longest_match a b alo ahi blo bhi of
        (i, j, k) \<Rightarrow>
          if k = 0 then 0
          else k + (if alo < i \<and> blo < j then matching_size a b alo i blo j else 0)
                 + (if i + k < ahi \<and> j + k < bhi then matching_size a b (i + k) ahi (j + k) bhi
                    else 0))"
  by pat_completeness auto
termination
proof (relation "measure (\<lambda>(a, b, alo, ahi, blo, bhi). ahi - alo)", goal_cases)
  case 1
  then show ?case by simp
next
  case (2 a b alo ahi blo bhi i y j k)
  then have "find_longest_match a b alo ahi blo bhi = (i, j, k)"
    by simp
  from find_longest_match_bounds [OF this] 2 show ?case
    by auto
next
  case (3 a b alo ahi blo bhi i y j k)
  then have "find_longest_match a b alo ahi blo bhi = (i, j, k)"
    by simp
  from find_longest_match_bounds [OF this] 3 show ?case
    by auto
qed

declare matching_size.simps [simp del]

text \<open>\<open>_calculate_ratio\<close>: \<open>2.0 * matches / length\<close>, or \<open>1.0\<close> when both sequences are empty.\<close>

definition SequenceMatcher_ratio :: "'a list \<Rightarrow> 'a list \<Rightarrow> rat" where
  "SequenceMatcher_ratio a b =
     (if length a + length b = 0 then 1
      else 2 * of_nat (matching_size a b 0 (length a) 0 (length b))
             / of_nat (length a + length b))"

section \<open>The model \<open>Message\<close>\<close>

text \<open>
  The fields as the class declares them, each \<open>Optional\<close>. The field \<open>text\<close> is named
  \<open>msg_text\<close>. The argument of \<open>init\<close> is the record of the validated keyword arguments
  (what \<open>super().__init__(**kwargs)\<close> leaves in the object); \<open>init\<close> then assigns the
  three derived fields in the source's order, and the first exception ends it.
\<close>

record Message =
  from_id :: "int option"
  channel_id :: "int option"
  message_id :: "int option"
  from_channel_id :: "int option"
  from_message_id :: "int option"
  forward_from_id :: "int option"
  msg_text :: "pystr option"
  caption :: "pystr option"
  media_ids :: "pystr list option"
  fingerprint :: "pystr option"
  significant_text :: "bool option"
  chat_id :: "int option"

text \<open>The expression \<open>self.text or self.caption or ""\<close> (lines 36, 45, 89 and 90).\<close>

definition text_or_caption :: "Message \<Rightarrow> pystr" where
  "text_or_caption self =
     (if truthy_seq (msg_text self) then the (msg_text self)
      else if truthy_seq (caption self) then the (caption self)
      else [])"

text \<open>\<open>__chat_id\<close>: \<open>int(str(self.channel_id).replace("-100", ""))\<close>.\<close>

definition Message_chat_id :: "Message \<Rightarrow> error + int" where
  "Message_chat_id self = py_int (replace ''-100'' [] (str (channel_id self)))"

text \<open>
  \<open>__gen_fingerprint\<close>. The parameter \<open>sha256_hex\<close> stands for the standard library's
  \<open>hashlib.sha256(s.encode("utf-8")).hexdigest()\<close>: the lower-case hexadecimal SHA-256
  digest of the UTF-8 encoding of \<open>s\<close>. The slice \<open>[:16]\<close> is \<open>take 16\<close>.
\<close>

definition gen_fingerprint :: "(pystr \<Rightarrow> pystr) \<Rightarrow> Message \<Rightarrow> error + pystr" where
  "gen_fingerprint sha256_hex self =
     (case join_opt '','' (media_ids self) of
        Inl e \<Rightarrow> Inl e
      | Inr joined_media \<Rightarrow>
          (let fingerprint_parts =
                 [str (from_channel_id self), str (from_message_id self),
                  text_or_caption self, joined_media]
           in Inr (take 16 (sha256_hex (join '';'' fingerprint_parts)))))"

definition init :: "(pystr \<Rightarrow> pystr) \<Rightarrow> Message \<Rightarrow> error + Message" where
  "init sha256_hex kwargs =
     (case Message_chat_id kwargs of
        Inl e \<Rightarrow> Inl e
      | Inr c \<Rightarrow>
          (let self1 = kwargs\<lparr>chat_id := Some c\<rparr> in
           case gen_fingerprint sha256_hex self1 of
             Inl e \<Rightarrow> Inl e
           | Inr f \<Rightarrow>
               (let self2 = self1\<lparr>fingerprint := Some f\<rparr> in
                Inr (self2\<lparr>significant_text := Some (length (text_or_caption self2) > 64)\<rparr>))))"

text \<open>
  \<open>is_comparable\<close> returns the value of an \<open>and\<close> chain; its only caller applies \<open>not\<close>
  to it, so the model returns its truthiness.
\<close>

definition is_comparable :: "Message \<Rightarrow> bool" where
  "is_comparable self =
     (let ids_present = (truthy_int (channel_id self) \<and> truthy_int (message_id self));
          significant_content = (truthy_seq (media_ids self) \<or> truthy_bool (significant_text self));
          forward_self = (truthy_int (forward_from_id self) \<and> forward_from_id self = from_id self)
      in ids_present \<and> significant_content \<and> \<not> forward_self)"

text \<open>
  \<open>__eq__\<close> returns \<open>NotImplemented\<close>, \<open>True\<close> or \<open>False\<close>. The parameter \<open>ratio\<close> stands
  for the standard library's \<open>difflib.SequenceMatcher(None, x, y).ratio()\<close>; the examples
  pass \<open>SequenceMatcher_ratio\<close>.

  Python's floats are modelled by the rationals they denote, with \<open>0.66\<close>, \<open>0.75\<close> and
  \<open>0.33\<close> as \<open>66/100\<close>, \<open>75/100\<close> and \<open>33/100\<close> and the true division of two lengths as
  their exact quotient. A quotient of two natural numbers with a denominator \<open>n\<close> that
  differs from \<open>66/100\<close> differs from it by at least \<open>1/(50 n)\<close>, far more than the
  rounding of a double for every length a message can have, so the comparisons of the
  source and of the model agree.

  The logging calls have no effect on the result and are left out. \<open>set(None)\<close> raises
  \<open>TypeError\<close>; the division raises \<open>ZeroDivisionError\<close> on a zero divisor.
\<close>

datatype outcome = NotImplemented | Boolean bool

text \<open>
  Lines 89 to 97: \<open>same_text_ratio\<close> is \<open>0.0\<close> when either effective text is empty,
  and the library's ratio otherwise.
\<close>

definition same_text_ratio :: "(pystr \<Rightarrow> pystr \<Rightarrow> rat) \<Rightarrow> Message \<Rightarrow> Message \<Rightarrow> rat" where
  "same_text_ratio ratio self other =
     (let compare_self = text_or_caption self;
          compare_other = text_or_caption other
      in if compare_self = [] \<or> compare_other = [] then 0
         else ratio compare_self compare_other)"

text \<open>Lines 103, 105 and 106: \<open>text_ratio_limit\<close> after the \<open>if\<close>.\<close>

definition text_ratio_limit :: "Message \<Rightarrow> rat" where
  "text_ratio_limit self =
     (if truthy_int (from_channel_id self) \<and> truthy_int (from_message_id self)
      then 66 / 100 else 75 / 100)"

definition media_ratio_limit :: rat where
  "media_ratio_limit = 66 / 100"

definition text_ratio_media_limit :: rat where
  "text_ratio_media_limit = 33 / 100"

definition eq :: "(pystr \<Rightarrow> pystr \<Rightarrow> rat) \<Rightarrow> Message \<Rightarrow> Message \<Rightarrow> error + outcome" where
  "eq ratio self other =
     (if \<not> is_comparable self then Inr NotImplemented
      else if fingerprint self = fingerprint other then Inr (Boolean True)
      else if truthy_int (channel_id self) \<and> channel_id self = channel_id other
                \<and> message_id self = message_id other
           then Inr (Boolean True)
      else if truthy_int (from_channel_id self) \<and> from_channel_id self = from_channel_id other
                \<and> from_message_id self = from_message_id other
           then Inr (Boolean True)
      else if truthy_bool (significant_text self)
                \<and> same_text_ratio ratio self other > text_ratio_limit self
           then Inr (Boolean True)
      else if truthy_seq (media_ids self) then
        (case media_ids other of
           None \<Rightarrow> Inl TypeError
         | Some other_media \<Rightarrow>
             (let same_media_list =
                    remdups (filter (\<lambda>x. x \<in> set other_media) (the (media_ids self)));
                  max_media_len = max (length (the (media_ids self))) (length other_media)
              in if max_media_len = 0 then Inl ZeroDivisionError
                 else
                   (let same_media_ratio =
                          (of_nat (length same_media_list) / of_nat max_media_len :: rat)
                    in if truthy_bool (significant_text self)
                            \<and> same_text_ratio ratio self other > text_ratio_media_limit
                       then Inr (Boolean True)
                       else if same_media_ratio \<ge> media_ratio_limit
                       then Inr (Boolean True)
                       else Inr (Boolean False))))
      else Inr (Boolean False))"

section \<open>Example messages\<close>

text \<open>
  \<open>kwargs0\<close> is the object \<open>super().__init__()\<close> leaves when no keyword argument is given:
  every field \<open>None\<close>, \<open>significant_text\<close> at its default \<open>False\<close>. The examples below
  update it. Where an example is a constructed message, its \<open>fingerprint\<close> is the one
  \<open>hashlib\<close> gives for its fingerprint string, and its \<open>chat_id\<close> and \<open>significant_text\<close>
  are the ones \<open>init\<close> assigns.
\<close>

definition kwargs0 :: Message where
  "kwargs0 = \<lparr>from_id = None, channel_id = None, message_id = None,
              from_channel_id = None, from_message_id = None, forward_from_id = None,
              msg_text = None, caption = None, media_ids = None,
              fingerprint = None, significant_text = Some False, chat_id = None\<rparr>"

definition long_text :: pystr where
  "long_text = ''The quick brown fox jumps over the lazy dog near the old stone bridge.''"

text \<open>\<open>Message(channel_id=-1001234, message_id=5, media_ids=["m1"])\<close>.\<close>

definition msg_m1 :: Message where
  "msg_m1 = kwargs0\<lparr>channel_id := Some (- 1001234), message_id := Some 5,
                     media_ids := Some [''m1''], fingerprint := Some ''070502bf611ee6c7'',
                     chat_id := Some 1234\<rparr>"

text \<open>\<open>Message(channel_id=-1005678, media_ids=["m2"])\<close>: no \<open>message_id\<close>.\<close>

definition msg_no_message_id :: Message where
  "msg_no_message_id = kwargs0\<lparr>channel_id := Some (- 1005678),
                     media_ids := Some [''m2''], fingerprint := Some ''b69e4f2b8d741444'',
                     chat_id := Some 5678\<rparr>"

text \<open>
  \<open>Message(channel_id=-1005678, message_id=9, text=long_text, media_ids=[])\<close> with
  \<open>media_ids\<close> set to \<open>None\<close> afterwards (the constructor itself raises on it).
\<close>

definition msg_absent_media :: Message where
  "msg_absent_media = kwargs0\<lparr>channel_id := Some (- 1005678), message_id := Some 9,
                     msg_text := Some long_text, media_ids := None,
                     fingerprint := Some ''ce71ba289009b41a'',
                     significant_text := Some True, chat_id := Some 5678\<rparr>"

text \<open>The spec's third scenario: three media each, two shared, no text.\<close>

definition msg_m123 :: Message where
  "msg_m123 = kwargs0\<lparr>channel_id := Some (- 1001234), message_id := Some 5,
                     media_ids := Some [''m1'', ''m2'', ''m3''],
                     fingerprint := Some ''0441fc993f2ea376'', chat_id := Some 1234\<rparr>"

definition msg_m124 :: Message where
  "msg_m124 = kwargs0\<lparr>channel_id := Some (- 1005678), message_id := Some 9,
                     media_ids := Some [''m1'', ''m2'', ''m4''],
                     fingerprint := Some ''d0291e665a924598'', chat_id := Some 5678\<rparr>"

text \<open>
  \<open>Message(channel_id=-1001234, message_id=5, from_channel_id=0, from_message_id=7,
  text=long_text, media_ids=[])\<close>: both origin identifiers present, one of them zero.
\<close>

definition msg_zero_origin :: Message where
  "msg_zero_origin = kwargs0\<lparr>channel_id := Some (- 1001234), message_id := Some 5,
                     from_channel_id := Some 0, from_message_id := Some 7,
                     msg_text := Some long_text, media_ids := Some [],
                     fingerprint := Some ''b629e0a9aa74417d'',
                     significant_text := Some True, chat_id := Some 1234\<rparr>"

text \<open>
  \<open>Message(channel_id=-1001234, message_id=5, media_ids=["m1", "m1", "m1"])\<close> and the
  same media observed as message 9 of another channel.
\<close>

definition msg_m111 :: Message where
  "msg_m111 = kwargs0\<lparr>channel_id := Some (- 1001234), message_id := Some 5,
                     media_ids := Some [''m1'', ''m1'', ''m1''],
                     fingerprint := Some ''4851686c7d6f2232'', chat_id := Some 1234\<rparr>"

definition msg_m111_repost :: Message where
  "msg_m111_repost = kwargs0\<lparr>channel_id := Some (- 1005678), message_id := Some 9,
                     media_ids := Some [''m1'', ''m1'', ''m1''],
                     fingerprint := Some ''4851686c7d6f2232'', chat_id := Some 5678\<rparr>"

text \<open>\<open>Message(channel_id=-1005678, message_id=9, media_ids=["m2"])\<close>.\<close>

definition msg_m2 :: Message where
  "msg_m2 = kwargs0\<lparr>channel_id := Some (- 1005678), message_id := Some 9,
                     media_ids := Some [''m2''], fingerprint := Some ''b69e4f2b8d741444'',
                     chat_id := Some 5678\<rparr>"

text \<open>
  \<open>Message(channel_id=-1001234, message_id=5, text=long_text, media_ids=[])\<close>, and the same
  with an origin, \<open>from_channel_id=10, from_message_id=7\<close>.
\<close>

definition msg_long :: Message where
  "msg_long = kwargs0\<lparr>channel_id := Some (- 1001234), message_id := Some 5,
                     msg_text := Some long_text, media_ids := Some [],
                     fingerprint := Some ''ce71ba289009b41a'',
                     significant_text := Some True, chat_id := Some 1234\<rparr>"

definition msg_long_origin :: Message where
  "msg_long_origin = kwargs0\<lparr>channel_id := Some (- 1001234), message_id := Some 5,
                     from_channel_id := Some 10, from_message_id := Some 7,
                     msg_text := Some long_text, media_ids := Some [],
                     fingerprint := Some ''85fb5e50152061dd'',
                     significant_text := Some True, chat_id := Some 1234\<rparr>"

text \<open>
  Two edits of \<open>long_text\<close>: its first 54, respectively 55, characters, filled up to 74
  characters. \<open>difflib\<close> gives the ratios \<open>2 * 54 / 144 = 0.75\<close> and \<open>2 * 55 / 144\<close>.
\<close>

definition text54 :: pystr where
  "text54 = ''The quick brown fox jumps over the lazy dog near the o####################''"

definition text55 :: pystr where
  "text55 = ''The quick brown fox jumps over the lazy dog near the ol###################''"

definition msg_edit54 :: Message where
  "msg_edit54 = kwargs0\<lparr>channel_id := Some (- 1005678), message_id := Some 9,
                     msg_text := Some text54, media_ids := Some [],
                     fingerprint := Some ''dffc93a30c498d16'',
                     significant_text := Some True, chat_id := Some 5678\<rparr>"

definition msg_edit55 :: Message where
  "msg_edit55 = kwargs0\<lparr>channel_id := Some (- 1005678), message_id := Some 9,
                     msg_text := Some text55, media_ids := Some [],
                     fingerprint := Some ''0c469cb6f56af0f4'',
                     significant_text := Some True, chat_id := Some 5678\<rparr>"

section \<open>Evaluation lemmas\<close>

lemma str_None: "str None = ''None''"
  by (simp add: str_def)

lemma str_1001234: "str (Some (- 1001234)) = ''-1001234''"
  by (simp add: str_def str_int_def str_nat.simps)

lemma str_1005678: "str (Some (- 1005678)) = ''-1005678''"
  by (simp add: str_def str_int_def str_nat.simps)

lemma str_10: "str (Some 10) = ''10''"
  by (simp add: str_def str_int_def str_nat.simps)

lemma replace_None: "replace ''-100'' [] ''None'' = ''None''"
  by (simp add: replace.simps)

lemma replace_1001234: "replace ''-100'' [] ''-1001234'' = ''1234''"
  by (simp add: replace.simps)

lemma replace_1005678: "replace ''-100'' [] ''-1005678'' = ''5678''"
  by (simp add: replace.simps)

lemma py_int_None: "py_int ''None'' = Inl ValueError"
  by (simp add: py_int_def is_digit_def)

lemma py_int_1234: "py_int ''1234'' = Inr 1234"
  by (simp add: py_int_def is_digit_def dec_val_def digit_val_def)

lemma py_int_5678: "py_int ''5678'' = Inr 5678"
  by (simp add: py_int_def is_digit_def dec_val_def digit_val_def)

lemma chat_id_absent: "channel_id k = None \<Longrightarrow> Message_chat_id k = Inl ValueError"
  by (simp add: Message_chat_id_def str_None replace_None py_int_None)

lemma chat_id_1001234: "channel_id k = Some (- 1001234) \<Longrightarrow> Message_chat_id k = Inr 1234"
  by (simp add: Message_chat_id_def str_1001234 replace_1001234 py_int_1234)

lemma chat_id_1005678: "channel_id k = Some (- 1005678) \<Longrightarrow> Message_chat_id k = Inr 5678"
  by (simp add: Message_chat_id_def str_1005678 replace_1005678 py_int_5678)

lemmas flm_eval = find_longest_match_def outer_loop.simps extend_left.simps
  extend_right.simps b2j_def purge_popular_def j2len_get_def new_best_def

lemma length_long_text: "length long_text = 70"
  by (simp add: long_text_def)

lemma length_text54: "length text54 = 74"
  by (simp add: text54_def)

lemma length_text55: "length text55 = 74"
  by (simp add: text55_def)

lemma flm_text54: "find_longest_match long_text text54 0 70 0 74 = (0, 0, 54)"
  by (simp add: flm_eval long_text_def text54_def)

lemma flm_text54_rest: "find_longest_match long_text text54 54 70 54 74 = (54, 54, 0)"
  by (simp add: flm_eval long_text_def text54_def)

lemma flm_text55: "find_longest_match long_text text55 0 70 0 74 = (0, 0, 55)"
  by (simp add: flm_eval long_text_def text55_def)

lemma flm_text55_rest: "find_longest_match long_text text55 55 70 55 74 = (55, 55, 0)"
  by (simp add: flm_eval long_text_def text55_def)

lemma ratio_text54: "SequenceMatcher_ratio long_text text54 = 3 / 4"
  by (simp add: SequenceMatcher_ratio_def length_long_text length_text54
        matching_size.simps flm_text54 flm_text54_rest)

lemma ratio_text55: "SequenceMatcher_ratio long_text text55 = 55 / 72"
  by (simp add: SequenceMatcher_ratio_def length_long_text length_text55
        matching_size.simps flm_text55 flm_text55_rest)

lemma texts_nonempty: "long_text \<noteq> []" "text54 \<noteq> []" "text55 \<noteq> []"
  by (simp_all add: long_text_def text54_def text55_def)

section \<open>Properties of the constructor and of the comparison\<close>

lemma not_comparable_iff:
  "(\<not> is_comparable a) =
     ((channel_id a = None \<or> channel_id a = Some 0) \<or>
      (message_id a = None \<or> message_id a = Some 0) \<or>
      ((media_ids a = None \<or> media_ids a = Some []) \<and>
       (significant_text a = None \<or> significant_text a = Some False)) \<or>
      (\<exists>i. i \<noteq> 0 \<and> forward_from_id a = Some i \<and> from_id a = Some i))"
  by (auto simp: is_comparable_def truthy_int_def truthy_seq_def truthy_bool_def
           split: option.splits)

lemma init_Inr_iff:
  "(init H k = Inr m) =
     (\<exists>c media. Message_chat_id k = Inr c \<and> media_ids k = Some media \<and>
        m = k\<lparr>chat_id := Some c,
               fingerprint := Some (take 16 (H (join '';''
                  [str (from_channel_id k), str (from_message_id k),
                   text_or_caption k, join '','' media]))),
               significant_text := Some (64 < length (text_or_caption k))\<rparr>)"
  by (auto simp: init_def gen_fingerprint_def join_opt_def text_or_caption_def Let_def
           split: sum.splits option.splits)

lemmas eq_eval = eq_def is_comparable_def truthy_int_def truthy_seq_def truthy_bool_def
  same_text_ratio_def text_or_caption_def text_ratio_limit_def media_ratio_limit_def
  text_ratio_media_limit_def kwargs0_def

lemma same_media_card:
  "length (remdups (filter (\<lambda>x. x \<in> set ys) xs)) = card (set xs \<inter> set ys)"
proof -
  have "set (filter (\<lambda>x. x \<in> set ys) xs) = set xs \<inter> set ys"
    by auto
  then show ?thesis
    by (metis length_remdups_card_conv)
qed

lemma same_text_ratio_54:
  "same_text_ratio SequenceMatcher_ratio msg_long msg_edit54 = 3 / 4"
  "same_text_ratio SequenceMatcher_ratio msg_long_origin msg_edit54 = 3 / 4"
  "same_text_ratio SequenceMatcher_ratio msg_zero_origin msg_edit54 = 3 / 4"
  by (simp_all add: same_text_ratio_def text_or_caption_def truthy_seq_def texts_nonempty
        ratio_text54 msg_long_def msg_long_origin_def msg_zero_origin_def msg_edit54_def
        kwargs0_def)

lemma same_text_ratio_55:
  "same_text_ratio SequenceMatcher_ratio msg_long msg_edit55 = 55 / 72"
  by (simp add: same_text_ratio_def text_or_caption_def truthy_seq_def texts_nonempty
        ratio_text55 msg_long_def msg_edit55_def kwargs0_def)






text \<open>
  The comparison raises only on an argument whose \<open>media_ids\<close> is \<open>None\<close>: with a list
  there it returns, and every message the constructor returns has a list there. The
  division is never by zero, because the receiver's list is non-empty where it is made.
\<close>

lemma eq_returns:
  assumes "media_ids other = Some other_media"
  shows "\<exists>r. eq ratio self other = Inr r"
proof (cases "truthy_seq (media_ids self)")
  case True
  then have "the (media_ids self) \<noteq> []"
    by (auto simp: truthy_seq_def split: option.splits)
  with assms show ?thesis
    by (simp add: eq_def Let_def)
next
  case False
  then show ?thesis
    by (simp add: eq_def)
qed

lemma eq_constructed_returns:
  assumes "init sha256_hex kwargs = Inr other"
  shows "\<exists>r. eq ratio self other = Inr r"
proof -
  from assms obtain media where "media_ids other = Some media"
    by (auto simp: init_Inr_iff)
  then show ?thesis
    by (rule eq_returns)
qed

text \<open>
  On an object whose \<open>media_ids\<close> was set to \<open>None\<close> after its construction, line 115
  raises: \<open>msg_absent_media\<close> is no value of the constructor.
\<close>

lemma eq_media_None_raises:
  "is_comparable msg_m1 \<and> is_comparable msg_absent_media \<and> media_ids msg_absent_media = None
     \<and> eq ratio msg_m1 msg_absent_media = Inl TypeError"
  by (simp add: eq_def is_comparable_def truthy_int_def truthy_seq_def truthy_bool_def
        same_text_ratio_def text_or_caption_def text_ratio_limit_def
        msg_absent_media_def msg_m1_def kwargs0_def)

section \<open>Claims\<close>

text \<open>
  C1 (as amended). \<open>a.__eq__(b)\<close> returns \<open>NotImplemented\<close> exactly when the receiver \<open>a\<close>
  fails the comparability test of the code: \<open>channel_id\<close> or \<open>message_id\<close> absent or zero,
  or neither a non-empty \<open>media_ids\<close> nor \<open>significant_text\<close>, or \<open>forward_from_id\<close>
  present, non-zero and equal to \<open>from_id\<close>. The comparability of the argument \<open>b\<close> is
  not consulted.
\<close>

theorem eq_NotImplemented_iff:
  "(eq ratio a b = Inr NotImplemented) =
     ((channel_id a = None \<or> channel_id a = Some 0) \<or>
      (message_id a = None \<or> message_id a = Some 0) \<or>
      ((media_ids a = None \<or> media_ids a = Some []) \<and>
       (significant_text a = None \<or> significant_text a = Some False)) \<or>
      (\<exists>i. i \<noteq> 0 \<and> forward_from_id a = Some i \<and> from_id a = Some i))"
  unfolding not_comparable_iff [symmetric]
  by (simp add: eq_def Let_def split: option.splits)

text \<open>
  The receiver without a \<open>message_id\<close> gives \<open>NotImplemented\<close>; the same pair the other
  way round does not.
\<close>

theorem eq_NotImplemented_iff_witness:
  "\<forall>ratio. eq ratio msg_no_message_id msg_m1 = Inr NotImplemented
      \<and> eq ratio msg_m1 msg_no_message_id \<noteq> Inr NotImplemented"
  using eq_NotImplemented_iff [of _ msg_no_message_id msg_m1]
        eq_NotImplemented_iff [of _ msg_m1 msg_no_message_id]
  by (simp add: msg_no_message_id_def msg_m1_def kwargs0_def)

text \<open>
  C1 as stated fails: \<open>msg_m1\<close> is comparable, \<open>msg_no_message_id\<close> is not, and the
  comparison of the first against the second is \<open>False\<close>, not \<open>NotImplemented\<close>. Both
  texts are empty, so the library's ratio is not called.
\<close>

theorem eq_other_not_comparable_counterexample:
  "is_comparable msg_m1 \<and> \<not> is_comparable msg_no_message_id
     \<and> eq SequenceMatcher_ratio msg_m1 msg_no_message_id = Inr (Boolean False)"
  by (simp add: eq_def is_comparable_def truthy_int_def truthy_seq_def truthy_bool_def
        same_text_ratio_def text_or_caption_def text_ratio_limit_def media_ratio_limit_def
        text_ratio_media_limit_def msg_no_message_id_def msg_m1_def kwargs0_def)



text \<open>
  C3 (the code at the failing input). With a well-formed \<open>channel_id\<close> and \<open>media_ids\<close>
  absent, the constructor raises \<open>TypeError\<close> at \<open>",".join(self.media_ids)\<close>, whatever the
  other fields are: no fingerprint is produced.
\<close>

theorem init_absent_media_raises:
  "init sha256_hex (kwargs\<lparr>channel_id := Some (- 1001234), media_ids := None\<rparr>) = Inl TypeError"
  by (simp add: init_def chat_id_1001234 gen_fingerprint_def join_opt_def)

text \<open>
  C4 (the code at the failing input). With \<open>channel_id\<close> absent the constructor raises
  \<open>ValueError\<close> at \<open>int("None")\<close>, whatever the other fields are: no message is
  constructed.
\<close>

theorem init_absent_channel_raises:
  "init sha256_hex (kwargs\<lparr>channel_id := None\<rparr>) = Inl ValueError"
  by (simp add: init_def chat_id_absent)

text \<open>
  C5. The fingerprint of every constructed message is the first 16 characters of the
  digest of: \<open>str(from_channel_id)\<close>, \<open>str(from_message_id)\<close>, the text if it is
  non-empty, else the caption if it is non-empty, else the empty string, and the media
  identifiers joined by commas in their order; the four joined by semicolons in this
  order. (\<open>sha256_hex\<close> is the library's lower-case hexadecimal SHA-256 digest.)
\<close>

theorem fingerprint_formula:
  assumes "init sha256_hex kwargs = Inr self"
  shows "\<exists>media. media_ids kwargs = Some media \<and>
           fingerprint self = Some (take 16 (sha256_hex (
             str (from_channel_id kwargs) @ '';'' @ str (from_message_id kwargs) @ '';'' @
             (if msg_text kwargs \<noteq> None \<and> msg_text kwargs \<noteq> Some [] then the (msg_text kwargs)
              else if caption kwargs \<noteq> None \<and> caption kwargs \<noteq> Some [] then the (caption kwargs)
              else []) @ '';'' @ join '','' media)))"
  using assms
  by (auto simp: init_Inr_iff text_or_caption_def truthy_seq_def split: option.splits)

text \<open>
  An empty \<open>text\<close> falls through to the caption, and an absent \<open>from_message_id\<close> is
  hashed as the text \<open>None\<close>.
\<close>

theorem fingerprint_formula_witness:
  "\<forall>sha256_hex. \<exists>self.
     init sha256_hex (kwargs0\<lparr>channel_id := Some (- 1001234), message_id := Some 5,
        from_channel_id := Some 10, msg_text := Some [], caption := Some ''hello'',
        media_ids := Some [''m1'', ''m2'']\<rparr>) = Inr self
     \<and> fingerprint self = Some (take 16 (sha256_hex ''10;None;hello;m1,m2''))"
proof (intro allI)
  fix sha256_hex :: "pystr \<Rightarrow> pystr"
  let ?k = "kwargs0\<lparr>channel_id := Some (- 1001234), message_id := Some 5,
        from_channel_id := Some 10, msg_text := Some [], caption := Some ''hello'',
        media_ids := Some [''m1'', ''m2'']\<rparr>"
  have "Message_chat_id ?k = Inr 1234"
    by (rule chat_id_1001234) simp
  then obtain self where s: "init sha256_hex ?k = Inr self"
    by (simp add: init_Inr_iff)
  from fingerprint_formula [OF s]
  have "fingerprint self = Some (take 16 (sha256_hex ''10;None;hello;m1,m2''))"
    by (simp add: kwargs0_def str_None str_10)
  with s show "\<exists>self. init sha256_hex ?k = Inr self
     \<and> fingerprint self = Some (take 16 (sha256_hex ''10;None;hello;m1,m2''))"
    by blast
qed

text \<open>
  C6. Two constructed messages that agree on \<open>from_channel_id\<close>, \<open>from_message_id\<close>,
  text-or-caption and \<open>media_ids\<close> have the same fingerprint, whatever their other
  fields are.
\<close>

theorem fingerprint_independent:
  assumes "init sha256_hex k1 = Inr a" and "init sha256_hex k2 = Inr b"
    and "from_channel_id k1 = from_channel_id k2"
    and "from_message_id k1 = from_message_id k2"
    and "text_or_caption k1 = text_or_caption k2"
    and "media_ids k1 = media_ids k2"
  shows "fingerprint a = fingerprint b"
  using assms by (auto simp: init_Inr_iff)

text \<open>
  Two messages that differ in \<open>channel_id\<close>, \<open>message_id\<close> and \<open>forward_from_id\<close>, one
  carrying its content as text and the other as caption.
\<close>

theorem fingerprint_independent_witness:
  "\<forall>sha256_hex. \<exists>a b.
     init sha256_hex (kwargs0\<lparr>channel_id := Some (- 1001234), message_id := Some 5,
        from_channel_id := Some 10, from_message_id := Some 99,
        msg_text := Some ''hello'', media_ids := Some [''m1'']\<rparr>) = Inr a
     \<and> init sha256_hex (kwargs0\<lparr>channel_id := Some (- 1005678), message_id := Some 77,
        from_channel_id := Some 10, from_message_id := Some 99, forward_from_id := Some 3,
        caption := Some ''hello'', media_ids := Some [''m1'']\<rparr>) = Inr b
     \<and> channel_id a \<noteq> channel_id b \<and> message_id a \<noteq> message_id b
     \<and> forward_from_id a \<noteq> forward_from_id b
     \<and> fingerprint a = fingerprint b"
proof (intro allI)
  fix sha256_hex :: "pystr \<Rightarrow> pystr"
  let ?k1 = "kwargs0\<lparr>channel_id := Some (- 1001234), message_id := Some 5,
        from_channel_id := Some 10, from_message_id := Some 99,
        msg_text := Some ''hello'', media_ids := Some [''m1'']\<rparr>"
  let ?k2 = "kwargs0\<lparr>channel_id := Some (- 1005678), message_id := Some 77,
        from_channel_id := Some 10, from_message_id := Some 99, forward_from_id := Some 3,
        caption := Some ''hello'', media_ids := Some [''m1'']\<rparr>"
  have "Message_chat_id ?k1 = Inr 1234"
    by (rule chat_id_1001234) simp
  then obtain a where a: "init sha256_hex ?k1 = Inr a"
    by (simp add: init_Inr_iff)
  have "Message_chat_id ?k2 = Inr 5678"
    by (rule chat_id_1005678) simp
  then obtain b where b: "init sha256_hex ?k2 = Inr b"
    by (simp add: init_Inr_iff)
  have "fingerprint a = fingerprint b"
    by (rule fingerprint_independent [OF a b])
       (simp_all add: kwargs0_def text_or_caption_def truthy_seq_def)
  moreover have "channel_id a \<noteq> channel_id b \<and> message_id a \<noteq> message_id b
     \<and> forward_from_id a \<noteq> forward_from_id b"
    using a b by (auto simp: init_Inr_iff kwargs0_def)
  ultimately show "\<exists>a b. init sha256_hex ?k1 = Inr a \<and> init sha256_hex ?k2 = Inr b
     \<and> channel_id a \<noteq> channel_id b \<and> message_id a \<noteq> message_id b
     \<and> forward_from_id a \<noteq> forward_from_id b
     \<and> fingerprint a = fingerprint b"
    using a b by blast
qed

text \<open>
  C7. For comparable messages with equal fingerprints the comparison is \<open>True\<close>, whatever
  the later rules of the cascade would give.
\<close>

theorem eq_fingerprint:
  assumes "is_comparable a" and "is_comparable b" and "fingerprint a = fingerprint b"
  shows "eq ratio a b = Inr (Boolean True)"
  using assms by (simp add: eq_def)

text \<open>
  Two observations of the same three-fold attachment match by fingerprint; with the
  receiver's fingerprint removed the cascade reaches the media rule, whose overlap is
  \<open>1/3\<close>, and answers \<open>False\<close>.
\<close>

theorem eq_fingerprint_witness:
  "\<forall>ratio. is_comparable msg_m111 \<and> is_comparable msg_m111_repost
     \<and> fingerprint msg_m111 = fingerprint msg_m111_repost
     \<and> eq ratio msg_m111 msg_m111_repost = Inr (Boolean True)
     \<and> eq ratio (msg_m111\<lparr>fingerprint := None\<rparr>) msg_m111_repost = Inr (Boolean False)"
proof (intro allI)
  fix ratio :: "pystr \<Rightarrow> pystr \<Rightarrow> rat"
  have c: "is_comparable msg_m111" "is_comparable msg_m111_repost"
    by (simp_all add: is_comparable_def truthy_int_def truthy_seq_def msg_m111_def
          msg_m111_repost_def kwargs0_def)
  have f: "fingerprint msg_m111 = fingerprint msg_m111_repost"
    by (simp add: msg_m111_def msg_m111_repost_def)
  have "eq ratio (msg_m111\<lparr>fingerprint := None\<rparr>) msg_m111_repost = Inr (Boolean False)"
    by (simp add: eq_eval msg_m111_def msg_m111_repost_def)
  with c f eq_fingerprint [OF c f, of ratio]
  show "is_comparable msg_m111 \<and> is_comparable msg_m111_repost
     \<and> fingerprint msg_m111 = fingerprint msg_m111_repost
     \<and> eq ratio msg_m111 msg_m111_repost = Inr (Boolean True)
     \<and> eq ratio (msg_m111\<lparr>fingerprint := None\<rparr>) msg_m111_repost = Inr (Boolean False)"
    by simp
qed

text \<open>
  C8 (as amended). When the receiver has significant text and no earlier rule matched,
  the text threshold is \<open>0.75\<close>, lowered to \<open>0.66\<close> exactly when the receiver's
  \<open>from_channel_id\<close> and \<open>from_message_id\<close> are both present and non-zero. The comparison
  is strict: a ratio above the threshold is a match, and a ratio equal to or below it is
  no match by the text rule (with no media on the receiver the result is \<open>False\<close>).
\<close>

theorem text_threshold:
  assumes "is_comparable a"
    and "fingerprint a \<noteq> fingerprint b"
    and "\<not> (channel_id a = channel_id b \<and> message_id a = message_id b)"
    and "\<not> (truthy_int (from_channel_id a) \<and> from_channel_id a = from_channel_id b
             \<and> from_message_id a = from_message_id b)"
    and "significant_text a = Some True"
  shows "text_ratio_limit a =
           (if from_channel_id a \<noteq> None \<and> from_channel_id a \<noteq> Some 0 \<and>
               from_message_id a \<noteq> None \<and> from_message_id a \<noteq> Some 0
            then 66 / 100 else 75 / 100)
       \<and> (text_ratio_limit a < same_text_ratio ratio a b \<longrightarrow> eq ratio a b = Inr (Boolean True))
       \<and> (same_text_ratio ratio a b \<le> text_ratio_limit a \<and> \<not> truthy_seq (media_ids a)
            \<longrightarrow> eq ratio a b = Inr (Boolean False))"
  using assms
  by (auto simp: eq_def text_ratio_limit_def truthy_int_def truthy_bool_def split: option.splits)

text \<open>
  With no origin the threshold is \<open>0.75\<close>: the edit whose ratio is exactly \<open>0.75\<close> is not
  a match, the edit whose ratio is \<open>55/72\<close> is. With a non-zero origin the threshold is
  \<open>0.66\<close> and the first edit matches.
\<close>

theorem text_threshold_witness:
  "text_ratio_limit msg_long = 75 / 100
     \<and> same_text_ratio SequenceMatcher_ratio msg_long msg_edit54 = 75 / 100
     \<and> eq SequenceMatcher_ratio msg_long msg_edit54 = Inr (Boolean False)
     \<and> same_text_ratio SequenceMatcher_ratio msg_long msg_edit55 = 55 / 72
     \<and> eq SequenceMatcher_ratio msg_long msg_edit55 = Inr (Boolean True)
     \<and> text_ratio_limit msg_long_origin = 66 / 100
     \<and> eq SequenceMatcher_ratio msg_long_origin msg_edit54 = Inr (Boolean True)"
proof -
  have c: "is_comparable msg_long" "is_comparable msg_long_origin"
    by (simp_all add: is_comparable_def truthy_int_def truthy_seq_def truthy_bool_def
          msg_long_def msg_long_origin_def kwargs0_def)
  have long: "fingerprint msg_long \<noteq> fingerprint msg_edit54"
    "fingerprint msg_long \<noteq> fingerprint msg_edit55"
    "channel_id msg_long \<noteq> channel_id msg_edit54"
    "channel_id msg_long \<noteq> channel_id msg_edit55"
    "from_channel_id msg_long = None" "from_message_id msg_long = None"
    "significant_text msg_long = Some True" "media_ids msg_long = Some []"
    by (simp_all add: msg_long_def msg_edit54_def msg_edit55_def kwargs0_def)
  have origin: "fingerprint msg_long_origin \<noteq> fingerprint msg_edit54"
    "channel_id msg_long_origin \<noteq> channel_id msg_edit54"
    "from_channel_id msg_long_origin = Some 10" "from_message_id msg_long_origin = Some 7"
    "from_channel_id msg_edit54 = None"
    "significant_text msg_long_origin = Some True" "media_ids msg_long_origin = Some []"
    by (simp_all add: msg_long_origin_def msg_edit54_def kwargs0_def)
  have 1: "text_ratio_limit msg_long = 75 / 100
       \<and> eq SequenceMatcher_ratio msg_long msg_edit54 = Inr (Boolean False)"
    using text_threshold [of msg_long msg_edit54 SequenceMatcher_ratio] c(1)
    by (simp add: long same_text_ratio_54 truthy_seq_def truthy_int_def)
  have 2: "eq SequenceMatcher_ratio msg_long msg_edit55 = Inr (Boolean True)"
    using text_threshold [of msg_long msg_edit55 SequenceMatcher_ratio] c(1)
    by (simp add: long same_text_ratio_55 truthy_seq_def truthy_int_def)
  have 3: "text_ratio_limit msg_long_origin = 66 / 100
       \<and> eq SequenceMatcher_ratio msg_long_origin msg_edit54 = Inr (Boolean True)"
    using text_threshold [of msg_long_origin msg_edit54 SequenceMatcher_ratio] c(2)
    by (simp add: origin same_text_ratio_54 truthy_seq_def truthy_int_def)
  from 1 2 3 show ?thesis
    by (simp add: same_text_ratio_54 same_text_ratio_55)
qed

text \<open>
  C8 as stated fails: \<open>msg_zero_origin\<close> has both origin identifiers present, so the claim
  has the threshold at \<open>0.66\<close> and the ratio \<open>0.75\<close> a match; the code keeps \<open>0.75\<close>,
  because \<open>from_channel_id\<close> is \<open>0\<close>, and answers \<open>False\<close>.
\<close>

theorem text_threshold_zero_origin_counterexample:
  "from_channel_id msg_zero_origin \<noteq> None \<and> from_message_id msg_zero_origin \<noteq> None
     \<and> is_comparable msg_zero_origin \<and> is_comparable msg_edit54
     \<and> significant_text msg_zero_origin = Some True
     \<and> same_text_ratio SequenceMatcher_ratio msg_zero_origin msg_edit54 = 75 / 100
     \<and> text_ratio_limit msg_zero_origin = 75 / 100
     \<and> eq SequenceMatcher_ratio msg_zero_origin msg_edit54 = Inr (Boolean False)"
proof -
  have fields: "from_channel_id msg_zero_origin = Some 0"
    "from_message_id msg_zero_origin = Some 7"
    "significant_text msg_zero_origin = Some True"
    "media_ids msg_zero_origin = Some []"
    "fingerprint msg_zero_origin \<noteq> fingerprint msg_edit54"
    "channel_id msg_zero_origin \<noteq> channel_id msg_edit54"
    by (simp_all add: msg_zero_origin_def msg_edit54_def kwargs0_def)
  have c: "is_comparable msg_zero_origin" "is_comparable msg_edit54"
    by (simp_all add: is_comparable_def truthy_int_def truthy_seq_def truthy_bool_def
          msg_zero_origin_def msg_edit54_def kwargs0_def)
  have l: "text_ratio_limit msg_zero_origin = 75 / 100"
    by (simp add: text_ratio_limit_def truthy_int_def fields)
  have "eq SequenceMatcher_ratio msg_zero_origin msg_edit54 = Inr (Boolean False)"
    by (simp add: eq_def c l fields same_text_ratio_54 truthy_int_def truthy_seq_def)
  with fields c l show ?thesis
    by (simp add: same_text_ratio_54)
qed

text \<open>
  C9. For comparable messages that no earlier rule matches, with the receiver's
  \<open>media_ids\<close> non-empty (and the argument's a list), the comparison is \<open>True\<close> exactly
  when the number of distinct shared identifiers divided by the larger of the two list
  lengths is at least \<open>0.66\<close>.
\<close>

theorem media_overlap:
  assumes "is_comparable a" and "is_comparable b"
    and "fingerprint a \<noteq> fingerprint b"
    and "\<not> (channel_id a = channel_id b \<and> message_id a = message_id b)"
    and "\<not> (truthy_int (from_channel_id a) \<and> from_channel_id a = from_channel_id b
             \<and> from_message_id a = from_message_id b)"
    and "\<not> (truthy_bool (significant_text a) \<and> text_ratio_limit a < same_text_ratio ratio a b)"
    and "\<not> (truthy_bool (significant_text a) \<and> 33 / 100 < same_text_ratio ratio a b)"
    and "media_ids a = Some ma" and "ma \<noteq> []"
    and "media_ids b = Some mb"
  shows "eq ratio a b =
           Inr (Boolean (66 / 100 \<le> (of_nat (card (set ma \<inter> set mb)) :: rat)
                                      / of_nat (max (length ma) (length mb))))"
  using assms
  by (auto simp: eq_def Let_def truthy_seq_def same_media_card media_ratio_limit_def
                 text_ratio_media_limit_def)

text \<open>
  The spec's scenarios 3 and 4: two of three media shared (\<open>2/3 \<ge> 0.66\<close>) is a match, no
  media shared is not.
\<close>

theorem media_overlap_witness:
  "\<forall>ratio. eq ratio msg_m123 msg_m124 = Inr (Boolean True)
      \<and> eq ratio msg_m1 msg_m2 = Inr (Boolean False)"
proof (intro allI)
  fix ratio :: "pystr \<Rightarrow> pystr \<Rightarrow> rat"
  have i1: "set [''m1'', ''m2'', ''m3''] \<inter> set [''m1'', ''m2'', ''m4''] = {''m1'', ''m2''}"
    by auto
  have i2: "set [''m1''] \<inter> set [''m2''] = ({} :: string set)"
    by auto
  have "eq ratio msg_m123 msg_m124 =
      Inr (Boolean (66 / 100 \<le> (of_nat (card (set [''m1'', ''m2'', ''m3''] \<inter> set [''m1'', ''m2'', ''m4''])) :: rat)
                                      / of_nat (max (length [''m1'', ''m2'', ''m3'']) (length [''m1'', ''m2'', ''m4'']))))"
    by (rule media_overlap)
       (simp_all add: is_comparable_def truthy_int_def truthy_seq_def truthy_bool_def
          msg_m123_def msg_m124_def kwargs0_def)
  then have a: "eq ratio msg_m123 msg_m124 = Inr (Boolean True)"
    unfolding i1 by simp
  have "eq ratio msg_m1 msg_m2 =
      Inr (Boolean (66 / 100 \<le> (of_nat (card (set [''m1''] \<inter> set [''m2''])) :: rat)
                                      / of_nat (max (length [''m1'']) (length [''m2'']))))"
    by (rule media_overlap)
       (simp_all add: is_comparable_def truthy_int_def truthy_seq_def truthy_bool_def
          msg_m1_def msg_m2_def kwargs0_def)
  then have b: "eq ratio msg_m1 msg_m2 = Inr (Boolean False)"
    unfolding i2 by simp
  from a b show "eq ratio msg_m123 msg_m124 = Inr (Boolean True)
      \<and> eq ratio msg_m1 msg_m2 = Inr (Boolean False)"
    by simp
qed

text \<open>
  C10. Identifiers that are zero count as absent in the presence tests: a message whose
  \<open>channel_id\<close> or \<open>message_id\<close> is \<open>0\<close> is not comparable; with \<open>forward_from_id = 0\<close>
  the self-forward exclusion does not apply, so comparability is decided by the other
  two conditions alone; and with \<open>from_channel_id\<close> or \<open>from_message_id\<close> equal to \<open>0\<close>
  the text threshold stays \<open>0.75\<close>.
\<close>

theorem zero_ids:
  "((channel_id a = Some 0 \<or> message_id a = Some 0) \<longrightarrow>
       \<not> is_comparable a \<and> eq ratio a b = Inr NotImplemented) \<and>
   (forward_from_id a = Some 0 \<longrightarrow>
       is_comparable a =
         (truthy_int (channel_id a) \<and> truthy_int (message_id a) \<and>
          (truthy_seq (media_ids a) \<or> truthy_bool (significant_text a)))) \<and>
   ((from_channel_id a = Some 0 \<or> from_message_id a = Some 0) \<longrightarrow>
       text_ratio_limit a = 75 / 100)"
  by (auto simp: eq_def is_comparable_def text_ratio_limit_def truthy_int_def)

text \<open>
  A zero \<open>message_id\<close>; a forward with \<open>forward_from_id = from_id = 0\<close>, still comparable;
  and an origin channel \<open>0\<close> with origin message \<open>7\<close>.
\<close>

theorem zero_ids_witness:
  "\<forall>ratio. eq ratio (msg_m1\<lparr>message_id := Some 0\<rparr>) msg_m2 = Inr NotImplemented
     \<and> is_comparable (msg_m1\<lparr>from_id := Some 0, forward_from_id := Some 0\<rparr>)
     \<and> text_ratio_limit msg_zero_origin = 75 / 100"
proof (intro allI)
  fix ratio :: "pystr \<Rightarrow> pystr \<Rightarrow> rat"
  have "eq ratio (msg_m1\<lparr>message_id := Some 0\<rparr>) msg_m2 = Inr NotImplemented"
    using zero_ids [of "msg_m1\<lparr>message_id := Some 0\<rparr>" ratio msg_m2] by simp
  moreover have "is_comparable (msg_m1\<lparr>from_id := Some 0, forward_from_id := Some 0\<rparr>)"
    using zero_ids [of "msg_m1\<lparr>from_id := Some 0, forward_from_id := Some 0\<rparr>" ratio msg_m2]
    by (simp add: truthy_int_def truthy_seq_def msg_m1_def kwargs0_def)
  moreover have "text_ratio_limit msg_zero_origin = 75 / 100"
    using zero_ids [of msg_zero_origin ratio msg_m2]
    by (simp add: msg_zero_origin_def kwargs0_def)
  ultimately show "eq ratio (msg_m1\<lparr>message_id := Some 0\<rparr>) msg_m2 = Inr NotImplemented
     \<and> is_comparable (msg_m1\<lparr>from_id := Some 0, forward_from_id := Some 0\<rparr>)
     \<and> text_ratio_limit msg_zero_origin = 75 / 100"
    by simp
qed

end
